theory Spec2Isabelle
  imports Complex_Main "HOL-Library.List_Lexorder" "HOL-Library.Char_ord"
begin

section \<open>Python values used by the expense tracker\<close>

text \<open>
  Strings are lists of 8-bit characters, read as ASCII text; they are compared as
  Python compares \<^verbatim>\<open>str\<close>: lexicographically, character code by character code.
  \<^verbatim>\<open>str.lower\<close> and \<^verbatim>\<open>str.strip\<close> are modelled on the ASCII range: the letters
  A to Z are lowered, and the characters Python's \<^verbatim>\<open>str.isspace\<close> accepts below 128
  (tab, line feed, vertical tab, form feed, carriage return, the four separators
  0x1C to 0x1F and the space) are stripped.
\<close>

definition upper_letters :: string where
  "upper_letters = ''ABCDEFGHIJKLMNOPQRSTUVWXYZ''"

definition lower_letters :: string where
  "lower_letters = ''abcdefghijklmnopqrstuvwxyz''"

definition lower_char :: "char \<Rightarrow> char" where
  "lower_char c = (case map_of (zip upper_letters lower_letters) c of None \<Rightarrow> c | Some d \<Rightarrow> d)"

definition lower :: "string \<Rightarrow> string" where
  "lower s = map lower_char s"

definition whitespace :: string where
  "whitespace = [CHR 0x09, CHR 0x0A, CHR 0x0B, CHR 0x0C, CHR 0x0D,
                 CHR 0x1C, CHR 0x1D, CHR 0x1E, CHR 0x1F, CHR 0x20]"

definition is_space :: "char \<Rightarrow> bool" where
  "is_space c = (c \<in> set whitespace)"

definition strip :: "string \<Rightarrow> string" where
  "strip s = rev (dropWhile is_space (rev (dropWhile is_space s)))"

text \<open>
  What \<^verbatim>\<open>json.load\<close> returns. A number is the real value of the Python number
  (a finite double, or an integer a double holds exactly); NaN and the infinities,
  which Python's parser also accepts, are outside the model. An object is the list of
  the items of the Python dict, looked up by key.
\<close>

datatype json =
    JNull
  | JBool bool
  | JNum real
  | JStr string
  | JArr "json list"
  | JObj "(string \<times> json) list"

text \<open>
  The exceptions the code can meet. \<^verbatim>\<open>ValueError\<close> and \<^verbatim>\<open>KeyError\<close> carry their
  message. \<^verbatim>\<open>OSError\<close> stands for what \<^verbatim>\<open>open\<close> raises on a file that exists but
  cannot be read (\<^verbatim>\<open>PermissionError\<close>, \<^verbatim>\<open>IsADirectoryError\<close>), \<open>PandasError\<close>
  for an exception raised inside pandas.
\<close>

datatype error =
    ValueError string
  | KeyError string
  | TypeError
  | AttributeError
  | OSError
  | PandasError

text \<open>
  What the Python runtime supplies at one call: the builtin \<^verbatim>\<open>float\<close> on strings
  (\<open>None\<close> where it raises \<^verbatim>\<open>ValueError\<close>), the first eight characters of a fresh
  \<^verbatim>\<open>uuid4\<close>, the local date as \<^verbatim>\<open>%Y-%m-%d\<close> and the clock in ISO format.
\<close>

record env =
  str_to_float :: "string \<Rightarrow> real option"
  new_id :: string
  today :: string
  now_iso :: string

section \<open>models.py: the Expense record\<close>

text \<open>
  The dataclass annotates \<^verbatim>\<open>date\<close>, \<^verbatim>\<open>id\<close> and \<^verbatim>\<open>created_at\<close> as \<^verbatim>\<open>str\<close> but never
  inspects them, so \<^verbatim>\<open>from_dict\<close> stores whatever value the file holds: these three
  fields carry a JSON value. \<^verbatim>\<open>amount\<close> has been through \<^verbatim>\<open>float\<close> and a comparison,
  \<^verbatim>\<open>category\<close> and \<^verbatim>\<open>description\<close> through a string method. The field \<^verbatim>\<open>id\<close> is
  named \<open>expense_id\<close> here.
\<close>

record expense =
  amount :: real
  category :: string
  description :: string
  date :: json
  expense_id :: json
  created_at :: json

text \<open>
  The constructor with \<^verbatim>\<open>__post_init__\<close>: the arguments in the order of the fields.
  A value without \<^verbatim>\<open>lower\<close> or \<^verbatim>\<open>strip\<close> raises \<^verbatim>\<open>AttributeError\<close>.
\<close>

definition post_init :: "real \<Rightarrow> json \<Rightarrow> json \<Rightarrow> json \<Rightarrow> json \<Rightarrow> json \<Rightarrow> error + expense" where
  "post_init a c d dt i ca =
     (if a \<le> 0 then Inl (ValueError ''Amount must be positive'')
      else (case c of
        JStr cs \<Rightarrow>
          (case d of
            JStr ds \<Rightarrow>
              (if strip ds = [] then Inl (ValueError ''Description cannot be empty'')
               else Inr \<lparr>amount = a, category = strip (lower cs), description = strip ds,
                         date = dt, expense_id = i, created_at = ca\<rparr>)
          | _ \<Rightarrow> Inl AttributeError)
      | _ \<Rightarrow> Inl AttributeError))"

text \<open>\<^verbatim>\<open>asdict\<close>: the fields in their declared order.\<close>

definition to_dict :: "expense \<Rightarrow> json" where
  "to_dict e = JObj
     [(''amount'', JNum (amount e)),
      (''category'', JStr (category e)),
      (''description'', JStr (description e)),
      (''date'', date e),
      (''id'', expense_id e),
      (''created_at'', created_at e)]"

text \<open>The builtin \<^verbatim>\<open>float\<close> on a value read from JSON.\<close>

definition py_float :: "env \<Rightarrow> json \<Rightarrow> error + real" where
  "py_float rt v =
     (case v of
        JNum r \<Rightarrow> Inr r
      | JBool b \<Rightarrow> Inr (if b then 1 else 0)
      | JStr s \<Rightarrow>
          (case str_to_float rt s of
             Some r \<Rightarrow> Inr r
           | None \<Rightarrow> Inl (ValueError ''could not convert string to float''))
      | _ \<Rightarrow> Inl TypeError)"

text \<open>\<^verbatim>\<open>data.get(key, default)\<close> on the items of a dict.\<close>

definition dict_get :: "(string \<times> json) list \<Rightarrow> string \<Rightarrow> json \<Rightarrow> json" where
  "dict_get kvs k dflt = (case map_of kvs k of None \<Rightarrow> dflt | Some v \<Rightarrow> v)"

text \<open>
  \<^verbatim>\<open>Expense.from_dict\<close>. A value that is not a dict has no \<^verbatim>\<open>get\<close>
  (\<^verbatim>\<open>AttributeError\<close>); a missing key under \<^verbatim>\<open>data[...]\<close> is a \<^verbatim>\<open>KeyError\<close>.
\<close>

definition from_dict :: "env \<Rightarrow> json \<Rightarrow> error + expense" where
  "from_dict rt data =
     (case data of
        JObj kvs \<Rightarrow>
          (case map_of kvs ''amount'' of
             None \<Rightarrow> Inl (KeyError ''amount'')
           | Some v \<Rightarrow>
               (case py_float rt v of
                  Inl err \<Rightarrow> Inl err
                | Inr a \<Rightarrow>
                    (case map_of kvs ''category'' of
                       None \<Rightarrow> Inl (KeyError ''category'')
                     | Some c \<Rightarrow>
                         (case map_of kvs ''description'' of
                            None \<Rightarrow> Inl (KeyError ''description'')
                          | Some d \<Rightarrow>
                              post_init a c d
                                (dict_get kvs ''date'' (JStr (today rt)))
                                (dict_get kvs ''id'' (JStr (new_id rt)))
                                (dict_get kvs ''created_at'' (JStr (now_iso rt)))))))
      | _ \<Rightarrow> Inl AttributeError)"

section \<open>storage.py: the JSON file\<close>

text \<open>
  The backing file, by what \<^verbatim>\<open>open\<close> and \<^verbatim>\<open>json.load\<close> make of it: no file at the
  path, a file that cannot be opened for reading, a file whose text is not JSON, or
  the parsed value.
\<close>

datatype backing_file = Missing | Unreadable | Malformed | Parsed json

text \<open>
  \<^verbatim>\<open>_read_data\<close> catches \<^verbatim>\<open>JSONDecodeError\<close> and \<^verbatim>\<open>FileNotFoundError\<close>, nothing else.
\<close>

definition read_data :: "backing_file \<Rightarrow> error + json list" where
  "read_data f =
     (case f of
        Missing \<Rightarrow> Inr []
      | Unreadable \<Rightarrow> Inl OSError
      | Malformed \<Rightarrow> Inr []
      | Parsed data \<Rightarrow> (case data of JArr items \<Rightarrow> Inr items | _ \<Rightarrow> Inr []))"

text \<open>\<^verbatim>\<open>_write_data\<close> replaces the file by the dumped list.\<close>

definition write_data :: "json list \<Rightarrow> backing_file" where
  "write_data data = Parsed (JArr data)"

text \<open>
  \<^verbatim>\<open>_ensure_file_exists\<close>, which the constructor of \<^verbatim>\<open>JSONStorage\<close> runs: a path
  without a file gets the empty list.
\<close>

definition ensure_file_exists :: "backing_file \<Rightarrow> backing_file" where
  "ensure_file_exists f = (case f of Missing \<Rightarrow> write_data [] | _ \<Rightarrow> f)"

text \<open>The \<^verbatim>\<open>except (ValueError, KeyError)\<close> clause of \<^verbatim>\<open>load_expenses\<close>.\<close>

fun caught :: "error \<Rightarrow> bool" where
  "caught (ValueError m) = True"
| "caught (KeyError m) = True"
| "caught err = False"

text \<open>
  The loop of \<^verbatim>\<open>load_expenses\<close>: the item at position \<open>k\<close> is deserialized under the
  runtime \<open>rt k\<close> (each call draws its own identifier and reads the clock). The
  accumulator holds the expenses appended so far and the warnings printed so far
  (the exception of each skipped entry).
\<close>

fun load_loop ::
  "(nat \<Rightarrow> env) \<Rightarrow> nat \<Rightarrow> expense list \<times> error list \<Rightarrow> json list \<Rightarrow>
   error + expense list \<times> error list" where
  "load_loop rt k acc [] = Inr acc"
| "load_loop rt k (expenses, warnings) (item # rest) =
     (case from_dict (rt k) item of
        Inr e \<Rightarrow> load_loop rt (Suc k) (expenses @ [e], warnings) rest
      | Inl err \<Rightarrow>
          (if caught err then load_loop rt (Suc k) (expenses, warnings @ [err]) rest
           else Inl err))"

definition load_expenses_log :: "(nat \<Rightarrow> env) \<Rightarrow> backing_file \<Rightarrow> error + expense list \<times> error list" where
  "load_expenses_log rt f =
     (case read_data f of
        Inl err \<Rightarrow> Inl err
      | Inr data \<Rightarrow> load_loop rt 0 ([], []) data)"

definition load_expenses :: "(nat \<Rightarrow> env) \<Rightarrow> backing_file \<Rightarrow> error + expense list" where
  "load_expenses rt f =
     (case load_expenses_log rt f of
        Inl err \<Rightarrow> Inl err
      | Inr (expenses, warnings) \<Rightarrow> Inr expenses)"

definition save_expenses :: "expense list \<Rightarrow> backing_file" where
  "save_expenses expenses = write_data (map to_dict expenses)"

text \<open>\<^verbatim>\<open>JSONStorage.add_expense\<close>: the file after the call.\<close>

definition storage_add_expense :: "(nat \<Rightarrow> env) \<Rightarrow> backing_file \<Rightarrow> expense \<Rightarrow> error + backing_file" where
  "storage_add_expense rt f e =
     (case load_expenses rt f of
        Inl err \<Rightarrow> Inl err
      | Inr expenses \<Rightarrow> Inr (save_expenses (expenses @ [e])))"

text \<open>
  \<^verbatim>\<open>JSONStorage.delete_expense\<close>: the returned flag and the file after the call. The
  file is written only in the branch that returns \<^verbatim>\<open>True\<close>.
\<close>

definition storage_delete_expense :: "(nat \<Rightarrow> env) \<Rightarrow> backing_file \<Rightarrow> string \<Rightarrow> error + bool \<times> backing_file" where
  "storage_delete_expense rt f i =
     (case load_expenses rt f of
        Inl err \<Rightarrow> Inl err
      | Inr expenses \<Rightarrow>
          (let original_count = length expenses;
               kept = filter (\<lambda>e. expense_id e \<noteq> JStr i) expenses
           in if length kept < original_count then Inr (True, save_expenses kept)
              else Inr (False, f)))"

fun first_with_id :: "string \<Rightarrow> expense list \<Rightarrow> expense option" where
  "first_with_id i [] = None"
| "first_with_id i (e # es) = (if expense_id e = JStr i then Some e else first_with_id i es)"

definition get_expense_by_id :: "(nat \<Rightarrow> env) \<Rightarrow> backing_file \<Rightarrow> string \<Rightarrow> error + expense option" where
  "get_expense_by_id rt f i =
     (case load_expenses rt f of
        Inl err \<Rightarrow> Inl err
      | Inr expenses \<Rightarrow> Inr (first_with_id i expenses))"

section \<open>manager.py: the operations\<close>

text \<open>
  \<^verbatim>\<open>ExpenseManager.add_expense\<close>: the expense is built first (\<^verbatim>\<open>date or today\<close>, a
  fresh identifier, the clock), under the runtime \<open>rte\<close>; then the storage loads,
  appends and saves. The result is the created expense and the file after the call.
\<close>

definition manager_add_expense ::
  "(nat \<Rightarrow> env) \<Rightarrow> env \<Rightarrow> backing_file \<Rightarrow> real \<Rightarrow> string \<Rightarrow> string \<Rightarrow> string option \<Rightarrow>
   error + expense \<times> backing_file" where
  "manager_add_expense rt rte f a c d dt =
     (case post_init a (JStr c) (JStr d)
             (JStr (case dt of None \<Rightarrow> today rte | Some s \<Rightarrow> if s = [] then today rte else s))
             (JStr (new_id rte)) (JStr (now_iso rte)) of
        Inl err \<Rightarrow> Inl err
      | Inr e \<Rightarrow>
          (case storage_add_expense rt f e of
             Inl err \<Rightarrow> Inl err
           | Inr f' \<Rightarrow> Inr (e, f')))"

definition manager_delete_expense :: "(nat \<Rightarrow> env) \<Rightarrow> backing_file \<Rightarrow> string \<Rightarrow> error + bool \<times> backing_file" where
  "manager_delete_expense rt f i = storage_delete_expense rt f i"

text \<open>
  A comprehension \<^verbatim>\<open>[e for e in expenses if e.date >= start_date]\<close>: comparing a value
  that is not a string with a string raises \<^verbatim>\<open>TypeError\<close>.
\<close>

fun filter_dates :: "(string \<Rightarrow> bool) \<Rightarrow> expense list \<Rightarrow> error + expense list" where
  "filter_dates p [] = Inr []"
| "filter_dates p (e # es) =
     (case date e of
        JStr s \<Rightarrow>
          (case filter_dates p es of
             Inl err \<Rightarrow> Inl err
           | Inr r \<Rightarrow> Inr (if p s then e # r else r))
      | _ \<Rightarrow> Inl TypeError)"

definition is_str :: "json \<Rightarrow> bool" where
  "is_str v = (case v of JStr s \<Rightarrow> True | _ \<Rightarrow> False)"

definition date_key :: "expense \<Rightarrow> string" where
  "date_key e = (case date e of JStr s \<Rightarrow> s | _ \<Rightarrow> [])"

text \<open>
  \<^verbatim>\<open>expenses.sort(key=lambda e: e.date, reverse=True)\<close>. Python's sort is stable, and
  with \<^verbatim>\<open>reverse=True\<close> it still keeps records of equal key in their original order:
  it sorts the reversed list and reverses the result. When the dates are strings
  this is what the model computes. A list of at most one record is never compared.
  A longer list that holds a date that is not a string raises \<^verbatim>\<open>TypeError\<close> as soon
  as that date meets a string; a list of two or more dates none of which is a string
  is outside the model, which answers \<^verbatim>\<open>TypeError\<close> there too.
\<close>

definition sort_by_date_desc :: "expense list \<Rightarrow> error + expense list" where
  "sort_by_date_desc es =
     (if list_all (\<lambda>e. is_str (date e)) es then Inr (rev (sort_key date_key (rev es)))
      else if length es \<le> 1 then Inr es
      else Inl TypeError)"

text \<open>
  The steps of \<^verbatim>\<open>ExpenseManager.list_expenses\<close>. \<^verbatim>\<open>if category:\<close>,
  \<^verbatim>\<open>if start_date:\<close> and \<^verbatim>\<open>if end_date:\<close> are false for \<^verbatim>\<open>None\<close> and for the empty
  string; \<^verbatim>\<open>if limit and limit > 0:\<close> is false for \<^verbatim>\<open>None\<close>, zero and a negative
  limit.
\<close>

definition by_category :: "string option \<Rightarrow> expense list \<Rightarrow> expense list" where
  "by_category cat expenses =
     (case cat of
        None \<Rightarrow> expenses
      | Some c \<Rightarrow>
          if c = [] then expenses
          else filter (\<lambda>e. category e = strip (lower c)) expenses)"

definition from_start :: "string option \<Rightarrow> expense list \<Rightarrow> error + expense list" where
  "from_start start_date expenses =
     (case start_date of
        None \<Rightarrow> Inr expenses
      | Some s \<Rightarrow>
          if s = [] then Inr expenses
          else filter_dates (\<lambda>d. s \<le> d) expenses)"

definition to_end :: "string option \<Rightarrow> expense list \<Rightarrow> error + expense list" where
  "to_end end_date expenses =
     (case end_date of
        None \<Rightarrow> Inr expenses
      | Some s \<Rightarrow>
          if s = [] then Inr expenses
          else filter_dates (\<lambda>d. d \<le> s) expenses)"

definition apply_limit :: "int option \<Rightarrow> expense list \<Rightarrow> expense list" where
  "apply_limit limit expenses =
     (case limit of
        None \<Rightarrow> expenses
      | Some n \<Rightarrow> if n \<noteq> 0 \<and> n > 0 then take (nat n) expenses else expenses)"

definition list_expenses ::
  "(nat \<Rightarrow> env) \<Rightarrow> backing_file \<Rightarrow> string option \<Rightarrow> string option \<Rightarrow> string option \<Rightarrow> int option \<Rightarrow>
   error + expense list" where
  "list_expenses rt f cat start_date end_date limit =
     (case load_expenses rt f of
        Inl err \<Rightarrow> Inl err
      | Inr expenses \<Rightarrow>
          (case from_start start_date (by_category cat expenses) of
             Inl err \<Rightarrow> Inl err
           | Inr started \<Rightarrow>
               (case to_end end_date started of
                  Inl err \<Rightarrow> Inl err
                | Inr in_range \<Rightarrow>
                    (case sort_by_date_desc in_range of
                       Inl err \<Rightarrow> Inl err
                     | Inr sorted_expenses \<Rightarrow> Inr (apply_limit limit sorted_expenses)))))"

text \<open>
  \<^verbatim>\<open>ExpenseManager.get_summary\<close> works on a pandas \<^verbatim>\<open>DataFrame\<close>. The arithmetic pandas
  does on the doubles of a column is a parameter of the model: the sum and the mean
  of the amounts of a group, and \<^verbatim>\<open>round(2)\<close>. Their results are doubles, hence reals.
\<close>

record pandas_arith =
  agg_sum :: "real list \<Rightarrow> real"
  agg_mean :: "real list \<Rightarrow> real"
  round2 :: "real \<Rightarrow> real"

text \<open>A row of the summary: the columns \<^verbatim>\<open>category\<close>, \<^verbatim>\<open>total\<close>, \<^verbatim>\<open>count\<close>, \<^verbatim>\<open>average\<close>.\<close>

record summary_row =
  s_category :: string
  s_total :: real
  s_count :: nat
  s_average :: real

definition startswith :: "string \<Rightarrow> string \<Rightarrow> bool" where
  "startswith s p = (take (length p) s = p)"

text \<open>
  \<^verbatim>\<open>df[df["date"].str.startswith(month)]\<close>. On a column that holds a value that is not a
  string the mask is not boolean and pandas raises.
\<close>

definition month_mask :: "string \<Rightarrow> expense list \<Rightarrow> error + expense list" where
  "month_mask m df =
     (if list_all (\<lambda>e. is_str (date e)) df
      then Inr (filter (\<lambda>e. startswith (date_key e) m) df)
      else Inl PandasError)"

text \<open>
  \<^verbatim>\<open>df.groupby("category").agg(...).reset_index()\<close>: one row per category, the
  categories in ascending order, each aggregated over the amounts of its records in
  their order in the frame.
\<close>

definition group_keys :: "expense list \<Rightarrow> string list" where
  "group_keys df = sort (remdups (map category df))"

definition group_amounts :: "expense list \<Rightarrow> string \<Rightarrow> real list" where
  "group_amounts df c = map amount (filter (\<lambda>e. category e = c) df)"

definition aggregate :: "pandas_arith \<Rightarrow> expense list \<Rightarrow> summary_row list" where
  "aggregate ar df =
     map (\<lambda>c. \<lparr>s_category = c,
                s_total = agg_sum ar (group_amounts df c),
                s_count = length (group_amounts df c),
                s_average = agg_mean ar (group_amounts df c)\<rparr>)
       (group_keys df)"

text \<open>
  \<^verbatim>\<open>summary.sort_values("total", ascending=False)\<close>: pandas reverses the rows, sorts
  them in ascending order and reverses the result. Rows of equal total are left here
  in their order; pandas' default sort does not promise that.
\<close>

definition sort_total_desc :: "summary_row list \<Rightarrow> summary_row list" where
  "sort_total_desc rows = rev (sort_key s_total (rev rows))"

definition round_columns :: "pandas_arith \<Rightarrow> summary_row list \<Rightarrow> summary_row list" where
  "round_columns ar rows =
     map (\<lambda>r. r\<lparr>s_total := round2 ar (s_total r), s_average := round2 ar (s_average r)\<rparr>) rows"

text \<open>\<^verbatim>\<open>if month:\<close> is false for \<^verbatim>\<open>None\<close> and for the empty string.\<close>

definition by_month :: "string option \<Rightarrow> expense list \<Rightarrow> error + expense list" where
  "by_month month df =
     (case month of
        None \<Rightarrow> Inr df
      | Some m \<Rightarrow> if m = [] then Inr df else month_mask m df)"

text \<open>The empty frame with the four columns is the empty list of rows.\<close>

definition get_summary ::
  "pandas_arith \<Rightarrow> (nat \<Rightarrow> env) \<Rightarrow> backing_file \<Rightarrow> string option \<Rightarrow> error + summary_row list" where
  "get_summary ar rt f month =
     (case load_expenses rt f of
        Inl err \<Rightarrow> Inl err
      | Inr expenses \<Rightarrow>
          (if expenses = [] then Inr []
           else (case by_month month expenses of
                   Inl err \<Rightarrow> Inl err
                 | Inr df \<Rightarrow>
                     (if df = [] then Inr []
                      else Inr (round_columns ar (sort_total_desc (aggregate ar df)))))))"

section \<open>What the specification says of list_expenses\<close>

text \<open>
  The specification's sentence on \<^verbatim>\<open>list_expenses\<close>, over the loaded collection: the
  records whose category is the lowercased and trimmed requested one and whose date
  lies between the two bounds, each filter applied when it is given; sorted by date,
  most recent first; cut to the first \<open>limit\<close> records when the limit is positive.
\<close>

definition selected :: "string option \<Rightarrow> string option \<Rightarrow> string option \<Rightarrow> expense \<Rightarrow> bool" where
  "selected cat start_date end_date e =
     ((case cat of None \<Rightarrow> True | Some c \<Rightarrow> category e = strip (lower c)) \<and>
      (case start_date of None \<Rightarrow> True | Some s \<Rightarrow> s \<le> date_key e) \<and>
      (case end_date of None \<Rightarrow> True | Some s \<Rightarrow> date_key e \<le> s))"

definition list_expenses_spec ::
  "expense list \<Rightarrow> string option \<Rightarrow> string option \<Rightarrow> string option \<Rightarrow> int option \<Rightarrow> expense list" where
  "list_expenses_spec es cat start_date end_date limit =
     (let newest_first = rev (sort_key date_key (rev (filter (selected cat start_date end_date) es)))
      in case limit of
           None \<Rightarrow> newest_first
         | Some n \<Rightarrow> if 0 < n then take (nat n) newest_first else newest_first)"

text \<open>A filter counts as given when it is a string that is not empty.\<close>

definition given :: "string option \<Rightarrow> string option" where
  "given s = (case s of None \<Rightarrow> None | Some t \<Rightarrow> if t = [] then None else Some t)"

section \<open>What the specification says of get_summary\<close>

text \<open>
  The records a summary is taken over: those whose date starts with the month, all
  of them when no month is given (every string starts with the empty string).
\<close>

definition month_prefix :: "string option \<Rightarrow> string" where
  "month_prefix month = (case month of None \<Rightarrow> [] | Some m \<Rightarrow> m)"

definition matching :: "string option \<Rightarrow> expense list \<Rightarrow> expense list" where
  "matching month es = filter (\<lambda>e. startswith (date_key e) (month_prefix month)) es"

text \<open>The unrounded total of the category of a row, over the matching records.\<close>

definition group_total :: "pandas_arith \<Rightarrow> expense list \<Rightarrow> summary_row \<Rightarrow> real" where
  "group_total ar sel r = agg_sum ar (group_amounts sel (s_category r))"

section \<open>Properties of records and files\<close>

text \<open>
  A record as the constructor leaves it: a positive amount, a category that lowering
  and stripping no longer change, a stripped description that is not empty.
\<close>

definition normalized :: "string \<Rightarrow> bool" where
  "normalized s = (strip (lower s) = s)"

definition valid_expense :: "expense \<Rightarrow> bool" where
  "valid_expense e =
     (0 < amount e \<and> normalized (category e) \<and>
      strip (description e) = description e \<and> description e \<noteq> [])"

text \<open>A stored item whose category is a normalized string, and a file of such items.\<close>

definition item_normalized :: "json \<Rightarrow> bool" where
  "item_normalized x =
     (case x of
        JObj kvs \<Rightarrow>
          (case map_of kvs ''category'' of
             Some (JStr s) \<Rightarrow> normalized s
           | _ \<Rightarrow> False)
      | _ \<Rightarrow> False)"

definition file_normalized :: "backing_file \<Rightarrow> bool" where
  "file_normalized f =
     (case f of
        Parsed (JArr items) \<Rightarrow> list_all item_normalized items
      | _ \<Rightarrow> True)"

section \<open>Example data\<close>

text \<open>
  A runtime for the examples. No example stores an amount as a string, so its
  \<open>str_to_float\<close> is never consulted.
\<close>

definition no_float :: "string \<Rightarrow> real option" where
  "no_float s = None"

definition example_runtime :: env where
  "example_runtime =
     \<lparr>str_to_float = no_float, new_id = ''1a2b3c4d'', today = ''2024-03-01'',
      now_iso = ''2024-03-01T09:30:00''\<rparr>"

definition example_runtimes :: "nat \<Rightarrow> env" where
  "example_runtimes k = example_runtime"

text \<open>Stored items: three valid ones, and two that do not deserialize.\<close>

definition item_lunch :: json where
  "item_lunch = JObj
     [(''amount'', JNum 12.5), (''category'', JStr ''food''), (''description'', JStr ''lunch''),
      (''date'', JStr ''2024-01-15''), (''id'', JStr ''aaaa1111''),
      (''created_at'', JStr ''2024-01-15T12:00:00'')]"

definition item_taxi :: json where
  "item_taxi = JObj
     [(''amount'', JNum 30), (''category'', JStr ''transport''), (''description'', JStr ''taxi''),
      (''date'', JStr ''2024-02-01''), (''id'', JStr ''bbbb2222''),
      (''created_at'', JStr ''2024-02-01T08:00:00'')]"

definition item_coffee :: json where
  "item_coffee = JObj
     [(''amount'', JNum 3), (''category'', JStr ''food''), (''description'', JStr ''coffee''),
      (''date'', JStr ''2023-12-31''), (''id'', JStr ''aaaa1111''),
      (''created_at'', JStr ''2023-12-31T18:00:00'')]"

definition item_negative :: json where
  "item_negative = JObj
     [(''amount'', JNum (- 5)), (''category'', JStr ''food''), (''description'', JStr ''refund''),
      (''date'', JStr ''2024-01-20''), (''id'', JStr ''cccc3333''),
      (''created_at'', JStr ''2024-01-20T10:00:00'')]"

definition item_null_category :: json where
  "item_null_category = JObj
     [(''amount'', JNum 3), (''category'', JNull), (''description'', JStr ''tea''),
      (''date'', JStr ''2024-01-16''), (''id'', JStr ''dddd4444''),
      (''created_at'', JStr ''2024-01-16T10:00:00'')]"

definition expense_lunch :: expense where
  "expense_lunch =
     \<lparr>amount = 12.5, category = ''food'', description = ''lunch'', date = JStr ''2024-01-15'',
      expense_id = JStr ''aaaa1111'', created_at = JStr ''2024-01-15T12:00:00''\<rparr>"

definition expense_taxi :: expense where
  "expense_taxi =
     \<lparr>amount = 30, category = ''transport'', description = ''taxi'', date = JStr ''2024-02-01'',
      expense_id = JStr ''bbbb2222'', created_at = JStr ''2024-02-01T08:00:00''\<rparr>"

definition expense_coffee :: expense where
  "expense_coffee =
     \<lparr>amount = 3, category = ''food'', description = ''coffee'', date = JStr ''2023-12-31'',
      expense_id = JStr ''aaaa1111'', created_at = JStr ''2023-12-31T18:00:00''\<rparr>"

definition expense_added :: expense where
  "expense_added =
     \<lparr>amount = 12.5, category = ''food'', description = ''lunch'', date = JStr ''2024-01-15'',
      expense_id = JStr ''1a2b3c4d'', created_at = JStr ''2024-03-01T09:30:00''\<rparr>"

section \<open>Strings: lowering and stripping\<close>

lemma is_space_lower_char: "is_space (lower_char c) = is_space c"
  by (simp add: is_space_def whitespace_def lower_char_def upper_letters_def lower_letters_def)

lemma dropWhile_is_space_lower:
  "dropWhile is_space (lower s) = lower (dropWhile is_space s)"
  by (induction s) (simp_all add: lower_def is_space_lower_char)

lemma rev_lower: "rev (lower s) = lower (rev s)"
  by (simp add: lower_def rev_map)

lemma strip_lower: "strip (lower s) = lower (strip s)"
  by (simp add: strip_def dropWhile_is_space_lower rev_lower)

lemma dropWhile_snoc_keep: "\<not> P x \<Longrightarrow> dropWhile P (ys @ [x]) = dropWhile P ys @ [x]"
  by (induction ys) auto

lemma strip_idem: "strip (strip s) = strip s"
proof (cases "dropWhile is_space s")
  case Nil
  show ?thesis unfolding strip_def Nil by simp
next
  case (Cons x t)
  have nx: "\<not> is_space x"
    using Cons hd_dropWhile [of is_space s] by simp
  define w where "w = dropWhile is_space (rev t)"
  have w_idem: "dropWhile is_space w = w"
    by (simp add: w_def)
  have s1: "strip s = x # rev w"
    using nx by (simp add: strip_def Cons dropWhile_snoc_keep w_def)
  have "strip (x # rev w) = x # rev w"
    using nx by (simp add: strip_def dropWhile_snoc_keep w_idem)
  then show ?thesis by (simp add: s1)
qed

lemma strip_empty_iff: "strip s = [] \<longleftrightarrow> list_all is_space s"
proof -
  have "strip s = [] \<longleftrightarrow> dropWhile is_space (rev (dropWhile is_space s)) = []"
    by (simp add: strip_def)
  also have "\<dots> \<longleftrightarrow> (\<forall>c \<in> set (dropWhile is_space s). is_space c)"
    by (simp add: dropWhile_eq_Nil_conv)
  also have "\<dots> \<longleftrightarrow> dropWhile is_space s = []"
    by (metis dropWhile_eq_Nil_conv dropWhile_idem)
  also have "\<dots> \<longleftrightarrow> list_all is_space s"
    by (simp add: dropWhile_eq_Nil_conv list_all_iff)
  finally show ?thesis .
qed

lemma lower_idem: "lower (lower s) = lower s"
proof -
  have "lower_char (lower_char c) = lower_char c" for c
    by (simp add: lower_char_def upper_letters_def lower_letters_def)
  then show ?thesis by (simp add: lower_def)
qed

lemma normalized_strip_lower: "normalized (strip (lower s))"
  by (simp add: normalized_def strip_lower lower_idem strip_idem)

lemma list_all_is_space_lower: "list_all is_space (lower s) = list_all is_space s"
  by (induction s) (simp_all add: lower_def is_space_lower_char)

lemmas string_eval =
  strip_def is_space_def whitespace_def lower_def lower_char_def upper_letters_def
  lower_letters_def

section \<open>The record: validation, normalization, round trip\<close>

lemma post_init_ValueError_iff:
  "(\<exists>m. post_init a (JStr c) (JStr d) dt i ca = Inl (ValueError m)) \<longleftrightarrow> a \<le> 0 \<or> strip d = []"
  by (simp add: post_init_def)

lemma post_init_valid: "post_init a c d dt i ca = Inr e \<Longrightarrow> valid_expense e"
  by (auto simp: post_init_def valid_expense_def normalized_strip_lower strip_idem
      split: if_splits json.splits)

lemma from_dict_ValueError_iff:
  "map_of kvs ''amount'' = Some v \<Longrightarrow> py_float rte v = Inr a \<Longrightarrow>
   map_of kvs ''category'' = Some (JStr c) \<Longrightarrow> map_of kvs ''description'' = Some (JStr d) \<Longrightarrow>
   (\<exists>m. from_dict rte (JObj kvs) = Inl (ValueError m)) \<longleftrightarrow> a \<le> 0 \<or> strip d = []"
  by (simp add: from_dict_def post_init_def)

lemma from_dict_to_dict:
  "from_dict rt (to_dict e) =
   post_init (amount e) (JStr (category e)) (JStr (description e)) (date e) (expense_id e)
     (created_at e)"
  by (simp add: from_dict_def to_dict_def py_float_def dict_get_def)

lemma from_dict_valid: "from_dict rt x = Inr e \<Longrightarrow> valid_expense e"
  by (auto simp: from_dict_def dest: post_init_valid split: json.splits option.splits sum.splits)

lemma from_dict_to_dict_valid: "valid_expense e \<Longrightarrow> from_dict rt (to_dict e) = Inr e"
  by (cases e) (auto simp: from_dict_to_dict post_init_def valid_expense_def normalized_def)

lemma from_dict_examples:
  "from_dict rte item_lunch = Inr expense_lunch"
  "from_dict rte item_taxi = Inr expense_taxi"
  "from_dict rte item_coffee = Inr expense_coffee"
  "from_dict rte item_negative = Inl (ValueError ''Amount must be positive'')"
  "from_dict rte item_null_category = Inl AttributeError"
  by (simp_all add: from_dict_def py_float_def dict_get_def post_init_def string_eval
      item_lunch_def item_taxi_def item_coffee_def item_negative_def item_null_category_def
      expense_lunch_def expense_taxi_def expense_coffee_def)

section \<open>The storage: loading and saving\<close>

lemma load_loop_not_caught:
  "load_loop rt k acc items = Inl err \<Longrightarrow> \<not> caught err"
proof (induction items arbitrary: k acc)
  case Nil
  then show ?case by simp
next
  case (Cons item rest)
  obtain es ws where acc: "acc = (es, ws)" by (cases acc)
  show ?case
  proof (cases "from_dict (rt k) item")
    case (Inl e)
    then show ?thesis using Cons acc by (auto split: if_splits)
  next
    case (Inr e)
    then show ?thesis using Cons acc by auto
  qed
qed

lemma load_expenses_not_caught:
  "load_expenses rt f = Inl err \<Longrightarrow> \<not> caught err"
  by (auto simp: load_expenses_def load_expenses_log_def read_data_def
      dest: load_loop_not_caught split: sum.splits backing_file.splits json.splits)

lemma load_expenses_tolerant:
  "load_expenses rt Missing = Inr []"
  "load_expenses rt Malformed = Inr []"
  "load_expenses rt (ensure_file_exists Missing) = Inr []"
  "load_expenses rt (Parsed JNull) = Inr []"
  "load_expenses rt (Parsed (JBool b)) = Inr []"
  "load_expenses rt (Parsed (JNum x)) = Inr []"
  "load_expenses rt (Parsed (JStr s)) = Inr []"
  "load_expenses rt (Parsed (JObj kvs)) = Inr []"
  by (simp_all add: load_expenses_def load_expenses_log_def read_data_def ensure_file_exists_def
      write_data_def)

lemma load_expenses_skips_negative:
  "load_expenses_log rt (Parsed (JArr [item_lunch, item_negative])) =
     Inr ([expense_lunch], [ValueError ''Amount must be positive''])"
  by (simp add: load_expenses_log_def read_data_def from_dict_examples)

lemma load_loop_to_dict:
  "list_all valid_expense es \<Longrightarrow>
   load_loop rt k (acc, ws) (map to_dict es) = Inr (acc @ es, ws)"
  by (induction es arbitrary: k acc) (simp_all add: from_dict_to_dict_valid)

lemma load_loop_valid:
  "load_loop rt k (acc, ws) items = Inr (es, ws') \<Longrightarrow> list_all valid_expense acc \<Longrightarrow>
   list_all valid_expense es"
proof (induction items arbitrary: k acc ws)
  case Nil
  then show ?case by simp
next
  case (Cons item rest)
  show ?case
  proof (cases "from_dict (rt k) item")
    case (Inl err)
    then show ?thesis using Cons by (auto split: if_splits)
  next
    case (Inr e)
    then have "load_loop rt (Suc k) (acc @ [e], ws) rest = Inr (es, ws')"
      using Cons.prems(1) by simp
    moreover have "list_all valid_expense (acc @ [e])"
      using Cons.prems(2) Inr from_dict_valid by simp
    ultimately show ?thesis by (rule Cons.IH)
  qed
qed

lemma load_expenses_log_valid:
  "load_expenses_log rt f = Inr (es, ws) \<Longrightarrow> list_all valid_expense es"
  by (auto simp: load_expenses_log_def dest: load_loop_valid split: sum.splits)

lemma load_expenses_valid: "load_expenses rt f = Inr es \<Longrightarrow> list_all valid_expense es"
  by (auto simp: load_expenses_def dest: load_expenses_log_valid split: sum.splits)

lemma load_log_save:
  "list_all valid_expense es \<Longrightarrow> load_expenses_log rt (save_expenses es) = Inr (es, [])"
  by (simp add: load_expenses_log_def save_expenses_def write_data_def read_data_def
      load_loop_to_dict)

lemma load_save: "list_all valid_expense es \<Longrightarrow> load_expenses rt (save_expenses es) = Inr es"
  by (simp add: load_expenses_def load_log_save)

lemma list_all_filter_keep: "list_all P xs \<Longrightarrow> list_all P (filter Q xs)"
  by (induction xs) auto

lemma length_filter_less_iff:
  "length (filter (\<lambda>e. \<not> Q e) xs) < length xs \<longleftrightarrow> list_ex Q xs"
proof (induction xs)
  case Nil
  then show ?case by simp
next
  case (Cons x xs)
  have "length (filter (\<lambda>e. \<not> Q e) xs) \<le> length xs" by simp
  with Cons show ?case by (auto simp: less_Suc_eq_le)
qed

lemma storage_delete_expense_result:
  "load_expenses rt f = Inr es \<Longrightarrow>
   storage_delete_expense rt f i =
     (if list_ex (\<lambda>e. expense_id e = JStr i) es
      then Inr (True, save_expenses (filter (\<lambda>e. expense_id e \<noteq> JStr i) es))
      else Inr (False, f))"
  using length_filter_less_iff [of "\<lambda>e. expense_id e = JStr i" es]
  by (simp add: storage_delete_expense_def Let_def)

lemma manager_add_ValueError_iff:
  "(\<exists>m. manager_add_expense rt rte f a c d dto = Inl (ValueError m)) \<longleftrightarrow> a \<le> 0 \<or> strip d = []"
proof -
  have "storage_add_expense rt f e \<noteq> Inl (ValueError m)" for e m
    using load_expenses_not_caught [of rt f "ValueError m"]
    by (auto simp: storage_add_expense_def split: sum.splits)
  then show ?thesis
    by (auto simp: manager_add_expense_def post_init_def split: sum.splits)
qed

lemmas load_eval =
  load_expenses_def load_expenses_log_def read_data_def from_dict_examples

section \<open>The manager: listing and summary\<close>

lemma item_normalized_to_dict: "item_normalized (to_dict e) = normalized (category e)"
  by (simp add: item_normalized_def to_dict_def)

lemma valid_normalized: "list_all valid_expense es \<Longrightarrow> list_all (\<lambda>e. normalized (category e)) es"
  by (induction es) (simp_all add: valid_expense_def)

lemma file_normalized_save:
  "list_all valid_expense es \<Longrightarrow> file_normalized (save_expenses es)"
  by (induction es)
    (simp_all add: file_normalized_def save_expenses_def write_data_def item_normalized_to_dict
      valid_expense_def)

lemma post_init_category:
  "post_init a (JStr c) d dt i ca = Inr e \<Longrightarrow> category e = lower (strip c)"
  by (auto simp: post_init_def strip_lower split: if_splits json.splits)

lemma filter_dates_subset: "filter_dates p es = Inr r \<Longrightarrow> set r \<subseteq> set es"
  by (induction es arbitrary: r) (auto split: json.splits sum.splits if_splits)

lemma filter_dates_strings:
  "list_all (\<lambda>e. is_str (date e)) es \<Longrightarrow>
   filter_dates p es = Inr (filter (\<lambda>e. p (date_key e)) es)"
  by (induction es) (auto simp: is_str_def date_key_def split: json.splits)

lemma sort_by_date_desc_set: "sort_by_date_desc es = Inr r \<Longrightarrow> set r = set es"
  by (auto simp: sort_by_date_desc_def split: if_splits)

lemma list_expenses_subset:
  assumes "list_expenses rt f cat sd ed n = Inr rs"
  shows "\<exists>es. load_expenses rt f = Inr es \<and> set rs \<subseteq> set es"
proof -
  from assms obtain es c2 c3 c4 where es: "load_expenses rt f = Inr es"
    and c2: "from_start sd (by_category cat es) = Inr c2"
    and c3: "to_end ed c2 = Inr c3"
    and c4: "sort_by_date_desc c3 = Inr c4"
    and rs: "rs = apply_limit n c4"
    by (auto simp: list_expenses_def split: sum.splits)
  have "set (by_category cat es) \<subseteq> set es"
    by (auto simp: by_category_def split: option.splits)
  moreover have "set c2 \<subseteq> set (by_category cat es)"
    using c2 filter_dates_subset by (auto simp: from_start_def split: option.splits if_splits)
  moreover have "set c3 \<subseteq> set c2"
    using c3 filter_dates_subset by (auto simp: to_end_def split: option.splits if_splits)
  moreover have "set c4 = set c3"
    using c4 by (rule sort_by_date_desc_set)
  moreover have "set rs \<subseteq> set c4"
    by (auto simp: rs apply_limit_def split: option.splits if_splits dest: in_set_takeD)
  ultimately show ?thesis using es by blast
qed

lemma manager_add_expense_result:
  assumes "manager_add_expense rt rte f a c dsc dto = Inr (e, f')"
  shows "category e = lower (strip c) \<and> file_normalized f'"
proof -
  obtain dt where p: "post_init a (JStr c) (JStr dsc) dt (JStr (new_id rte)) (JStr (now_iso rte)) = Inr e"
    using assms by (auto simp: manager_add_expense_def split: sum.splits)
  obtain es where es: "load_expenses rt f = Inr es" and f': "f' = save_expenses (es @ [e])"
    using assms by (auto simp: manager_add_expense_def storage_add_expense_def split: sum.splits)
  have "list_all valid_expense (es @ [e])"
    using es p by (simp add: load_expenses_valid post_init_valid)
  then show ?thesis
    using p f' by (simp add: post_init_category file_normalized_save)
qed

lemma storage_delete_normalized:
  assumes "storage_delete_expense rt f i = Inr (b, f')" and "file_normalized f"
  shows "file_normalized f'"
proof -
  obtain es where es: "load_expenses rt f = Inr es"
    using assms(1) by (auto simp: storage_delete_expense_def split: sum.splits)
  have "list_all valid_expense (filter (\<lambda>e. expense_id e \<noteq> JStr i) es)"
    using es by (simp add: load_expenses_valid list_all_filter_keep)
  then show ?thesis
    using assms es by (auto simp: storage_delete_expense_result file_normalized_save split: if_splits)
qed

lemma by_category_given:
  "by_category cat es =
   filter (\<lambda>e. case given cat of None \<Rightarrow> True | Some c \<Rightarrow> category e = strip (lower c)) es"
  by (simp add: by_category_def given_def split: option.splits)

lemma from_start_given:
  "list_all (\<lambda>e. is_str (date e)) es \<Longrightarrow>
   from_start sd es =
   Inr (filter (\<lambda>e. case given sd of None \<Rightarrow> True | Some s \<Rightarrow> s \<le> date_key e) es)"
  by (simp add: from_start_def given_def filter_dates_strings split: option.splits)

lemma to_end_given:
  "list_all (\<lambda>e. is_str (date e)) es \<Longrightarrow>
   to_end ed es =
   Inr (filter (\<lambda>e. case given ed of None \<Rightarrow> True | Some s \<Rightarrow> date_key e \<le> s) es)"
  by (simp add: to_end_def given_def filter_dates_strings split: option.splits)

lemma sort_by_date_desc_strings:
  "list_all (\<lambda>e. is_str (date e)) es \<Longrightarrow>
   sort_by_date_desc es = Inr (rev (sort_key date_key (rev es)))"
  by (simp add: sort_by_date_desc_def)

lemma sorted_desc_rev_sort_key:
  "sorted_wrt (\<lambda>x y. f y \<le> f x) (rev (sort_key f xs))"
proof -
  have "sorted_wrt (\<lambda>x y. f x \<le> f y) (sort_key f xs)"
    using sorted_sort_key [of f xs] by (simp add: sorted_map)
  then show ?thesis by (simp add: sorted_wrt_rev)
qed

lemma apply_limit_eq:
  "apply_limit n xs = (case n of None \<Rightarrow> xs | Some k \<Rightarrow> if 0 < k then take (nat k) xs else xs)"
  by (auto simp: apply_limit_def split: option.splits)

lemma matching_no_month: "month_prefix month = [] \<Longrightarrow> matching month es = es"
  by (simp add: matching_def startswith_def)

lemma by_month_matching:
  "month_prefix month = [] \<or> list_all (\<lambda>e. is_str (date e)) es \<Longrightarrow>
   by_month month es = Inr (matching month es)"
  by (auto simp: by_month_def month_mask_def matching_def month_prefix_def startswith_def
      split: option.splits)

lemma aggregate_Nil: "aggregate ar [] = []"
  by (simp add: aggregate_def group_keys_def)

lemma matching_Nil: "matching month [] = []"
  by (simp add: matching_def)

lemma get_summary_rows:
  assumes "load_expenses rt f = Inr es"
    and "month_prefix month = [] \<or> list_all (\<lambda>e. is_str (date e)) es"
  shows "get_summary ar rt f month =
         Inr (round_columns ar (sort_total_desc (aggregate ar (matching month es))))"
  using assms
  by (simp add: get_summary_def by_month_matching aggregate_Nil matching_Nil
      sort_total_desc_def round_columns_def)

lemma categories_aggregate: "map s_category (aggregate ar df) = group_keys df"
  by (simp add: aggregate_def comp_def)

lemma distinct_group_keys: "distinct (group_keys df)"
  by (simp add: group_keys_def)

lemma set_group_keys: "set (group_keys df) = category ` set df"
  by (simp add: group_keys_def)

lemma set_sort_total_desc: "set (sort_total_desc rows) = set rows"
  by (simp add: sort_total_desc_def)

lemma distinct_categories_sort:
  "distinct (map s_category (sort_total_desc rows)) = distinct (map s_category rows)"
  by (simp add: sort_total_desc_def distinct_map)

lemma categories_round: "map s_category (round_columns ar rows) = map s_category rows"
  by (simp add: round_columns_def comp_def)

lemma aggregate_rows:
  "r \<in> set (aggregate ar df) \<Longrightarrow>
   s_total r = group_total ar df r \<and>
   s_count r = length (filter (\<lambda>e. category e = s_category r) df) \<and>
   s_average r = agg_mean ar (group_amounts df (s_category r))"
  by (auto simp: aggregate_def group_total_def group_amounts_def)

lemma sorted_sort_total_desc:
  "sorted_wrt (\<lambda>r r'. s_total r' \<le> s_total r) (sort_total_desc rows)"
  unfolding sort_total_desc_def by (rule sorted_desc_rev_sort_key)


lemma sorted_wrt_cong_set:
  "(\<And>x y. x \<in> set xs \<Longrightarrow> y \<in> set xs \<Longrightarrow> P x y \<Longrightarrow> Q x y) \<Longrightarrow> sorted_wrt P xs \<Longrightarrow> sorted_wrt Q xs"
  by (induction xs) auto

section \<open>The claims\<close>

text \<open>
  C1. Constructing an Expense raises a validation error (a \<^verbatim>\<open>ValueError\<close>) if and only
  if the amount is at most zero or the description is empty after trimming, and it
  succeeds if and only if neither holds. The same holds of
  \<^verbatim>\<open>ExpenseManager.add_expense\<close>, whatever the backing file, and of
  \<^verbatim>\<open>Expense.from_dict\<close> on a mapping that holds an amount \<^verbatim>\<open>float\<close> converts and a
  category and a description that are strings. In particular the amounts 0 and -5
  fail, 0.01 succeeds, a description of spaces fails, and the description
  \<^verbatim>\<open>"  lunch  "\<close> is stored as \<^verbatim>\<open>"lunch"\<close>.
\<close>

theorem expense_validation:
  "((\<exists>m. post_init a (JStr c) (JStr d) dt i ca = Inl (ValueError m)) \<longleftrightarrow> a \<le> 0 \<or> strip d = []) \<and>
   ((\<exists>e. post_init a (JStr c) (JStr d) dt i ca = Inr e) \<longleftrightarrow> \<not> (a \<le> 0 \<or> strip d = [])) \<and>
   ((\<exists>m. manager_add_expense rt rte f a c d dto = Inl (ValueError m)) \<longleftrightarrow> a \<le> 0 \<or> strip d = []) \<and>
   (map_of kvs ''amount'' = Some v \<and> py_float rte v = Inr a \<and>
    map_of kvs ''category'' = Some (JStr c) \<and> map_of kvs ''description'' = Some (JStr d) \<longrightarrow>
      ((\<exists>m. from_dict rte (JObj kvs) = Inl (ValueError m)) \<longleftrightarrow> a \<le> 0 \<or> strip d = [])) \<and>
   post_init 0 (JStr c) (JStr d) dt i ca = Inl (ValueError ''Amount must be positive'') \<and>
   post_init (- 5) (JStr c) (JStr d) dt i ca = Inl (ValueError ''Amount must be positive'') \<and>
   (strip d \<noteq> [] \<longrightarrow> (\<exists>e. post_init 0.01 (JStr c) (JStr d) dt i ca = Inr e \<and> amount e = 0.01)) \<and>
   (0 < a \<longrightarrow> post_init a (JStr c) (JStr ''   '') dt i ca = Inl (ValueError ''Description cannot be empty'')) \<and>
   (0 < a \<longrightarrow> (\<exists>e. post_init a (JStr c) (JStr ''  lunch  '') dt i ca = Inr e \<and> description e = ''lunch''))"
proof -
  have p1: "(\<exists>e. post_init a (JStr c) (JStr d) dt i ca = Inr e) \<longleftrightarrow> \<not> (a \<le> 0 \<or> strip d = [])"
    by (simp add: post_init_def)
  have p2: "strip ''   '' = []" "strip ''  lunch  '' = ''lunch''"
    by (simp_all add: string_eval)
  have p3: "post_init 0 (JStr c) (JStr d) dt i ca = Inl (ValueError ''Amount must be positive'')"
    "post_init (- 5) (JStr c) (JStr d) dt i ca = Inl (ValueError ''Amount must be positive'')"
    by (simp_all add: post_init_def)
  have p4: "strip d \<noteq> [] \<longrightarrow> (\<exists>e. post_init 0.01 (JStr c) (JStr d) dt i ca = Inr e \<and> amount e = 0.01)"
    by (simp add: post_init_def)
  have p5: "0 < a \<longrightarrow> post_init a (JStr c) (JStr ''   '') dt i ca = Inl (ValueError ''Description cannot be empty'')"
    by (simp add: post_init_def p2)
  have p6: "0 < a \<longrightarrow> (\<exists>e. post_init a (JStr c) (JStr ''  lunch  '') dt i ca = Inr e \<and> description e = ''lunch'')"
    by (simp add: post_init_def p2)
  show ?thesis
    using post_init_ValueError_iff [of a c d dt i ca] p1
      manager_add_ValueError_iff [of rt rte f a c d dto]
      from_dict_ValueError_iff [of kvs v rte a c d] p3 p4 p5 p6
    by blast
qed

theorem expense_validation_witness:
  "(\<exists>m. post_init (- 5) (JStr ''Food'') (JStr ''lunch'') (JStr ''2024-01-15'') (JStr ''1a2b3c4d'')
          (JStr ''2024-01-15T12:00:00'') = Inl (ValueError m)) \<and>
   (\<exists>m. from_dict example_runtime
          (JObj [(''amount'', JNum (- 5)), (''category'', JStr ''Food''),
                 (''description'', JStr ''lunch'')]) = Inl (ValueError m)) \<and>
   (\<exists>e. post_init 0.01 (JStr ''Food'') (JStr ''lunch'') (JStr ''2024-01-15'') (JStr ''1a2b3c4d'')
          (JStr ''2024-01-15T12:00:00'') = Inr e \<and> amount e = 0.01)"
proof -
  have d: "strip ''lunch'' \<noteq> []"
    by (simp add: string_eval)
  have f: "py_float example_runtime (JNum (- 5)) = Inr (- 5)"
    by (simp add: py_float_def)
  show ?thesis
    using d f
      expense_validation [where a = "- 5" and c = "''Food''" and d = "''lunch''"
        and dt = "JStr ''2024-01-15''" and i = "JStr ''1a2b3c4d''"
        and ca = "JStr ''2024-01-15T12:00:00''" and rte = example_runtime
        and v = "JNum (- 5)"
        and kvs = "[(''amount'', JNum (- 5)), (''category'', JStr ''Food''),
                    (''description'', JStr ''lunch'')]"]
    by simp
qed

text \<open>
  C2. \<^verbatim>\<open>load_expenses\<close> is claimed never to raise and to skip every stored record that
  fails deserialization. The code catches \<^verbatim>\<open>ValueError\<close> and \<^verbatim>\<open>KeyError\<close> only: on a
  file that holds one valid record and one record whose category is \<^verbatim>\<open>null\<close> it
  raises \<^verbatim>\<open>AttributeError\<close> instead of returning the valid record, and on a file that
  cannot be opened it raises the \<^verbatim>\<open>OSError\<close>.
\<close>

theorem load_expenses_raises:
  "load_expenses example_runtimes (Parsed (JArr [item_lunch, item_null_category])) =
     Inl AttributeError \<and>
   load_expenses example_runtimes Unreadable = Inl OSError"
  by (simp add: load_eval)

text \<open>
  C5. Serializing an Expense with \<^verbatim>\<open>to_dict\<close> and deserializing the result with
  \<^verbatim>\<open>from_dict\<close> gives back the same record, in all six fields, exactly when the
  record is valid; every record the constructor returns is.
\<close>

theorem to_dict_from_dict_roundtrip:
  "(from_dict rt (to_dict e) = Inr e \<longleftrightarrow> valid_expense e) \<and>
   (post_init a c d dt i ca = Inr e \<longrightarrow> from_dict rt (to_dict e) = Inr e)"
proof -
  have iff: "from_dict rt (to_dict e) = Inr e \<longleftrightarrow> valid_expense e"
    by (cases e) (auto simp: from_dict_to_dict post_init_def valid_expense_def normalized_def)
  then show ?thesis using post_init_valid by blast
qed

theorem to_dict_from_dict_roundtrip_witness:
  "from_dict example_runtime (to_dict expense_lunch) = Inr expense_lunch"
proof -
  have "post_init 12.5 (JStr '' Food '') (JStr ''  lunch  '') (JStr ''2024-01-15'')
          (JStr ''aaaa1111'') (JStr ''2024-01-15T12:00:00'') = Inr expense_lunch"
    by (simp add: post_init_def string_eval expense_lunch_def)
  then show ?thesis
    using to_dict_from_dict_roundtrip [where rt = example_runtime] by blast
qed

text \<open>
  C7. Deleting an identifier that no loaded record carries returns \<^verbatim>\<open>False\<close>, through
  the storage and through the manager, and leaves the backing file as it was: the
  file is written only when \<^verbatim>\<open>delete_expense\<close> returns \<^verbatim>\<open>True\<close>.
\<close>

theorem delete_missing_id_unchanged:
  assumes "load_expenses rt f = Inr es"
    and "\<not> list_ex (\<lambda>e. expense_id e = JStr i) es"
  shows "storage_delete_expense rt f i = Inr (False, f) \<and>
         manager_delete_expense rt f i = Inr (False, f) \<and>
         (storage_delete_expense rt g i = Inr (False, g') \<longrightarrow> g' = g)"
proof -
  have "storage_delete_expense rt f i = Inr (False, f)"
    using assms by (simp add: storage_delete_expense_result)
  moreover have "storage_delete_expense rt g i = Inr (False, g') \<longrightarrow> g' = g"
    by (auto simp: storage_delete_expense_def Let_def split: sum.splits if_splits)
  ultimately show ?thesis by (simp add: manager_delete_expense_def)
qed

theorem delete_missing_id_unchanged_witness:
  "storage_delete_expense example_runtimes (Parsed (JArr [item_lunch, item_taxi])) ''zzzz9999'' =
     Inr (False, Parsed (JArr [item_lunch, item_taxi])) \<and>
   manager_delete_expense example_runtimes (Parsed (JArr [item_lunch, item_taxi])) ''zzzz9999'' =
     Inr (False, Parsed (JArr [item_lunch, item_taxi]))"
proof -
  have l: "load_expenses example_runtimes (Parsed (JArr [item_lunch, item_taxi])) =
           Inr [expense_lunch, expense_taxi]"
    by (simp add: load_eval)
  have n: "\<not> list_ex (\<lambda>e. expense_id e = JStr ''zzzz9999'') [expense_lunch, expense_taxi]"
    by (simp add: expense_lunch_def expense_taxi_def)
  from delete_missing_id_unchanged [OF l n] show ?thesis by simp
qed

text \<open>
  C9. When several loaded records carry the identifier, one call of
  \<^verbatim>\<open>delete_expense\<close> returns \<^verbatim>\<open>True\<close> and saves the collection without any of them:
  loading the file afterwards gives the other records, in their order, and none with
  that identifier.
\<close>

theorem delete_removes_every_match:
  assumes "load_expenses rt f = Inr es"
    and "list_ex (\<lambda>e. expense_id e = JStr i) es"
  shows "storage_delete_expense rt f i =
           Inr (True, save_expenses (filter (\<lambda>e. expense_id e \<noteq> JStr i) es)) \<and>
         load_expenses rt' (save_expenses (filter (\<lambda>e. expense_id e \<noteq> JStr i) es)) =
           Inr (filter (\<lambda>e. expense_id e \<noteq> JStr i) es) \<and>
         \<not> list_ex (\<lambda>e. expense_id e = JStr i) (filter (\<lambda>e. expense_id e \<noteq> JStr i) es) \<and>
         length (filter (\<lambda>e. expense_id e \<noteq> JStr i) es) =
           length es - length (filter (\<lambda>e. expense_id e = JStr i) es)"
proof -
  have v: "list_all valid_expense (filter (\<lambda>e. expense_id e \<noteq> JStr i) es)"
    using assms(1) by (simp add: load_expenses_valid list_all_filter_keep)
  have l: "length (filter (\<lambda>e. expense_id e \<noteq> JStr i) es) =
           length es - length (filter (\<lambda>e. expense_id e = JStr i) es)"
    using sum_length_filter_compl [of "\<lambda>e. expense_id e = JStr i" es] by simp
  show ?thesis
    using assms v l by (simp add: storage_delete_expense_result load_save list_ex_iff)
qed

theorem delete_removes_every_match_witness:
  "storage_delete_expense example_runtimes (Parsed (JArr [item_lunch, item_taxi, item_coffee]))
     ''aaaa1111'' = Inr (True, Parsed (JArr [item_taxi])) \<and>
   load_expenses example_runtimes (Parsed (JArr [item_taxi])) = Inr [expense_taxi]"
proof -
  have l: "load_expenses example_runtimes (Parsed (JArr [item_lunch, item_taxi, item_coffee])) =
           Inr [expense_lunch, expense_taxi, expense_coffee]"
    by (simp add: load_eval)
  have n: "list_ex (\<lambda>e. expense_id e = JStr ''aaaa1111'')
             [expense_lunch, expense_taxi, expense_coffee]"
    by (simp add: expense_lunch_def)
  have k: "filter (\<lambda>e. expense_id e \<noteq> JStr ''aaaa1111'')
             [expense_lunch, expense_taxi, expense_coffee] = [expense_taxi]"
    by (simp add: expense_lunch_def expense_taxi_def expense_coffee_def)
  have s: "save_expenses [expense_taxi] = Parsed (JArr [item_taxi])"
    by (simp add: save_expenses_def write_data_def to_dict_def expense_taxi_def item_taxi_def)
  from delete_removes_every_match [OF l n, of example_runtimes, unfolded k s] show ?thesis
    by blast
qed

text \<open>
  C10. A call of \<^verbatim>\<open>delete_expense\<close> that returns \<^verbatim>\<open>True\<close> writes the file from the
  records that were loaded: the new file holds the serialization of the kept records
  and nothing else, so no entry that fails deserialization is left in it, whether or
  not it carried the deleted identifier, and loading the new file skips nothing.
\<close>

theorem delete_rewrites_validated_snapshot:
  assumes "storage_delete_expense rt f i = Inr (True, f')"
    and "from_dict rt' r = Inl err"
  shows "\<exists>es. load_expenses rt f = Inr es \<and>
           f' = save_expenses (filter (\<lambda>e. expense_id e \<noteq> JStr i) es) \<and>
           read_data f' = Inr (map to_dict (filter (\<lambda>e. expense_id e \<noteq> JStr i) es)) \<and>
           r \<notin> set (map to_dict (filter (\<lambda>e. expense_id e \<noteq> JStr i) es)) \<and>
           load_expenses_log rt'' f' = Inr (filter (\<lambda>e. expense_id e \<noteq> JStr i) es, [])"
proof -
  obtain es where es: "load_expenses rt f = Inr es"
    using assms(1) by (auto simp: storage_delete_expense_def split: sum.splits)
  let ?kept = "filter (\<lambda>e. expense_id e \<noteq> JStr i) es"
  have f': "f' = save_expenses ?kept"
    using assms(1) es by (auto simp: storage_delete_expense_def Let_def split: if_splits)
  have v: "list_all valid_expense ?kept"
    using es by (simp add: load_expenses_valid list_all_filter_keep)
  have "r \<notin> set (map to_dict ?kept)"
  proof
    assume "r \<in> set (map to_dict ?kept)"
    then obtain e where "e \<in> set ?kept" "r = to_dict e" by auto
    then have "from_dict rt' r = Inr e"
      using v by (simp add: list_all_iff from_dict_to_dict_valid)
    with assms(2) show False by simp
  qed
  moreover have "read_data f' = Inr (map to_dict ?kept)"
    by (simp add: f' save_expenses_def write_data_def read_data_def)
  moreover have "load_expenses_log rt'' f' = Inr (?kept, [])"
    using v by (simp add: f' load_log_save)
  ultimately show ?thesis
    using es f' by blast
qed

theorem delete_rewrites_validated_snapshot_witness:
  "storage_delete_expense example_runtimes (Parsed (JArr [item_lunch, item_negative, item_taxi]))
     ''bbbb2222'' = Inr (True, Parsed (JArr [item_lunch])) \<and>
   item_negative \<in> set [item_lunch, item_negative, item_taxi] \<and>
   item_negative \<notin> set [item_lunch] \<and>
   load_expenses_log example_runtimes (Parsed (JArr [item_lunch, item_negative, item_taxi])) =
     Inr ([expense_lunch, expense_taxi], [ValueError ''Amount must be positive'']) \<and>
   load_expenses_log example_runtimes (Parsed (JArr [item_lunch])) = Inr ([expense_lunch], [])"
proof -
  have l: "load_expenses example_runtimes (Parsed (JArr [item_lunch, item_negative, item_taxi])) =
           Inr [expense_lunch, expense_taxi]"
    by (simp add: load_eval)
  have k: "filter (\<lambda>e. expense_id e \<noteq> JStr ''bbbb2222'') [expense_lunch, expense_taxi]
           = [expense_lunch]"
    by (simp add: expense_lunch_def expense_taxi_def)
  have t: "to_dict expense_lunch = item_lunch"
    by (simp add: to_dict_def expense_lunch_def item_lunch_def)
  have s: "save_expenses [expense_lunch] = Parsed (JArr [item_lunch])"
    by (simp add: save_expenses_def write_data_def t)
  have x: "list_ex (\<lambda>e. expense_id e = JStr ''bbbb2222'') [expense_lunch, expense_taxi]"
    by (simp add: expense_taxi_def)
  have d: "storage_delete_expense example_runtimes
             (Parsed (JArr [item_lunch, item_negative, item_taxi])) ''bbbb2222'' =
           Inr (True, Parsed (JArr [item_lunch]))"
    using storage_delete_expense_result [OF l, of "''bbbb2222''"] x by (simp only: k s if_True)
  have e: "from_dict example_runtime item_negative = Inl (ValueError ''Amount must be positive'')"
    by (simp add: from_dict_examples)
  have g: "load_expenses_log example_runtimes
             (Parsed (JArr [item_lunch, item_negative, item_taxi])) =
           Inr ([expense_lunch, expense_taxi], [ValueError ''Amount must be positive''])"
    by (simp add: load_eval)
  have m: "item_negative \<in> set [item_lunch, item_negative, item_taxi]"
    by simp
  from delete_rewrites_validated_snapshot [OF d e, of example_runtimes] l
  have "item_negative \<notin> set [item_lunch] \<and>
        load_expenses_log example_runtimes (Parsed (JArr [item_lunch])) = Inr ([expense_lunch], [])"
    by (auto simp only: k t sum.inject list.map)
  with d g m show ?thesis by blast
qed

text \<open>
  C6. Every constructed Expense stores the lowercased and trimmed category it was
  given, and the stored category is normalized (lowering and trimming no longer
  change it); the categories \<^verbatim>\<open>"Food"\<close> and \<^verbatim>\<open>" food "\<close> give the same record. The
  operations keep this: every record that \<^verbatim>\<open>from_dict\<close>, \<^verbatim>\<open>load_expenses\<close> or
  \<^verbatim>\<open>list_expenses\<close> returns has a normalized category, \<^verbatim>\<open>add_expense\<close> writes a
  file of records with normalized categories, and \<^verbatim>\<open>delete_expense\<close> leaves such a
  file such a file.
\<close>

theorem category_normalized:
  "(post_init a (JStr c) d dt i ca = Inr e \<longrightarrow>
      category e = lower (strip c) \<and> normalized (category e)) \<and>
   (post_init a (JStr ''Food'') d dt i ca = Inr e1 \<and>
    post_init a (JStr '' food '') d dt i ca = Inr e2 \<longrightarrow> e1 = e2 \<and> category e1 = ''food'') \<and>
   (from_dict rte x = Inr e \<longrightarrow> normalized (category e)) \<and>
   (load_expenses rt f = Inr es \<longrightarrow> list_all (\<lambda>e. normalized (category e)) es) \<and>
   (list_expenses rt f cat sd ed n = Inr es \<longrightarrow> list_all (\<lambda>e. normalized (category e)) es) \<and>
   (manager_add_expense rt rte f a c dsc dto = Inr (e, f') \<longrightarrow>
      category e = lower (strip c) \<and> file_normalized f') \<and>
   (storage_delete_expense rt f j = Inr (b, f') \<and> file_normalized f \<longrightarrow> file_normalized f')"
proof -
  have p1: "post_init a (JStr c) d dt i ca = Inr e \<longrightarrow>
      category e = lower (strip c) \<and> normalized (category e)"
    using post_init_category [of a c d dt i ca e] post_init_valid [of a "JStr c" d dt i ca e]
    by (auto simp: valid_expense_def)
  have fd: "lower (strip ''Food'') = ''food''" "lower (strip '' food '') = ''food''"
    by (simp_all add: string_eval)
  have p2: "post_init a (JStr ''Food'') d dt i ca = Inr e1 \<and>
    post_init a (JStr '' food '') d dt i ca = Inr e2 \<longrightarrow> e1 = e2 \<and> category e1 = ''food''"
    by (auto simp: post_init_def strip_lower fd split: if_splits json.splits)
  have p3: "from_dict rte x = Inr e \<longrightarrow> normalized (category e)"
    using from_dict_valid by (auto simp: valid_expense_def)
  have p4: "load_expenses rt f = Inr es \<longrightarrow> list_all (\<lambda>e. normalized (category e)) es"
    using load_expenses_valid valid_normalized by blast
  have p5: "list_expenses rt f cat sd ed n = Inr es \<longrightarrow> list_all (\<lambda>e. normalized (category e)) es"
  proof
    assume "list_expenses rt f cat sd ed n = Inr es"
    then obtain es' where "load_expenses rt f = Inr es'" "set es \<subseteq> set es'"
      using list_expenses_subset by blast
    then show "list_all (\<lambda>e. normalized (category e)) es"
      using load_expenses_valid [of rt f es'] valid_normalized [of es']
      by (auto simp: list_all_iff)
  qed
  have p6: "manager_add_expense rt rte f a c dsc dto = Inr (e, f') \<longrightarrow>
      category e = lower (strip c) \<and> file_normalized f'"
    using manager_add_expense_result by blast
  have p7: "storage_delete_expense rt f j = Inr (b, f') \<and> file_normalized f \<longrightarrow> file_normalized f'"
    using storage_delete_normalized by blast
  show ?thesis using p1 p2 p3 p4 p5 p6 p7 by blast
qed


theorem category_normalized_witness:
  "category expense_lunch = lower (strip '' Food '') \<and> normalized (category expense_lunch) \<and>
   list_all (\<lambda>e. normalized (category e)) [expense_lunch, expense_taxi] \<and>
   list_all (\<lambda>e. normalized (category e)) [expense_taxi, expense_lunch] \<and>
   category expense_added = lower (strip '' Food '') \<and>
   file_normalized (save_expenses [expense_added]) \<and>
   file_normalized (Parsed (JArr [item_lunch]))"
proof -
  let ?f = "Parsed (JArr [item_lunch, item_taxi])"
  have c: "post_init 12.5 (JStr '' Food '') (JStr ''  lunch  '') (JStr ''2024-01-15'')
          (JStr ''aaaa1111'') (JStr ''2024-01-15T12:00:00'') = Inr expense_lunch"
    by (simp add: post_init_def string_eval expense_lunch_def)
  have fd: "from_dict example_runtime item_lunch = Inr expense_lunch"
    by (simp add: from_dict_examples)
  have l: "load_expenses example_runtimes ?f = Inr [expense_lunch, expense_taxi]"
    by (simp add: load_eval)
  have srt: "sort_by_date_desc [expense_lunch, expense_taxi] = Inr [expense_taxi, expense_lunch]"
    by (simp add: sort_by_date_desc_def is_str_def date_key_def expense_lunch_def expense_taxi_def)
  have ls: "list_expenses example_runtimes ?f None None None None = Inr [expense_taxi, expense_lunch]"
    by (simp add: list_expenses_def l by_category_def from_start_def to_end_def srt apply_limit_def)
  have k: "filter (\<lambda>e. expense_id e \<noteq> JStr ''bbbb2222'') [expense_lunch, expense_taxi]
           = [expense_lunch]"
    by (simp add: expense_lunch_def expense_taxi_def)
  have s: "save_expenses [expense_lunch] = Parsed (JArr [item_lunch])"
    by (simp add: save_expenses_def write_data_def to_dict_def expense_lunch_def item_lunch_def)
  have x: "list_ex (\<lambda>e. expense_id e = JStr ''bbbb2222'') [expense_lunch, expense_taxi]"
    by (simp add: expense_taxi_def)
  have d: "storage_delete_expense example_runtimes ?f ''bbbb2222'' =
           Inr (True, Parsed (JArr [item_lunch]))"
    using storage_delete_expense_result [OF l, of "''bbbb2222''"] x by (simp only: k s if_True)
  have n: "file_normalized ?f"
    by (simp add: file_normalized_def item_normalized_def normalized_def item_lunch_def
        item_taxi_def string_eval)
  have a: "manager_add_expense example_runtimes example_runtime Missing 12.5 '' Food '' ''lunch''
             (Some ''2024-01-15'') = Inr (expense_added, save_expenses [expense_added])"
    by (simp add: manager_add_expense_def storage_add_expense_def load_eval post_init_def
        string_eval example_runtime_def expense_added_def)
  have w1: "category expense_lunch = lower (strip '' Food '') \<and> normalized (category expense_lunch) \<and>
      list_all (\<lambda>e. normalized (category e)) [expense_lunch, expense_taxi] \<and>
      file_normalized (Parsed (JArr [item_lunch]))"
    using c fd l d n
      category_normalized [where a = "12.5" and c = "'' Food ''" and d = "JStr ''  lunch  ''"
        and dt = "JStr ''2024-01-15''" and i = "JStr ''aaaa1111''"
        and ca = "JStr ''2024-01-15T12:00:00''" and e = expense_lunch
        and rte = example_runtime and x = item_lunch and rt = example_runtimes and f = ?f
        and es = "[expense_lunch, expense_taxi]" and j = "''bbbb2222''" and b = True
        and f' = "Parsed (JArr [item_lunch])"]
    by blast
  have w2: "list_all (\<lambda>e. normalized (category e)) [expense_taxi, expense_lunch]"
    using ls
      category_normalized [where rt = example_runtimes and f = ?f and cat = None and sd = None
        and ed = None and n = None and es = "[expense_taxi, expense_lunch]"]
    by blast
  have w3: "category expense_added = lower (strip '' Food '') \<and>
      file_normalized (save_expenses [expense_added])"
    using a
      category_normalized [where rt = example_runtimes and rte = example_runtime and f = Missing
        and a = "12.5" and c = "'' Food ''" and dsc = "''lunch''" and dto = "Some ''2024-01-15''"
        and e = expense_added and f' = "save_expenses [expense_added]"]
    by blast
  show ?thesis using w1 w2 w3 by blast
qed

text \<open>
  C8. The category of a constructed Expense is claimed never to be empty. The
  constructor checks the amount and the description only: a category of spaces is
  accepted and stored as the empty string. What holds is that the stored category is
  empty exactly when the given category holds nothing but whitespace.
\<close>

theorem category_empty_iff_blank:
  "post_init a (JStr c) d dt i ca = Inr e \<Longrightarrow> (category e = []) = list_all is_space c"
  by (auto simp: post_init_def strip_empty_iff list_all_is_space_lower
      split: if_splits json.splits)

theorem category_empty_iff_blank_witness:
  "category expense_lunch \<noteq> [] \<and> \<not> list_all is_space '' Food ''"
proof -
  have "post_init 12.5 (JStr '' Food '') (JStr ''  lunch  '') (JStr ''2024-01-15'')
          (JStr ''aaaa1111'') (JStr ''2024-01-15T12:00:00'') = Inr expense_lunch"
    by (simp add: post_init_def string_eval expense_lunch_def)
  from category_empty_iff_blank [OF this] show ?thesis
    by (simp add: expense_lunch_def)
qed

theorem empty_category_counterexample:
  "post_init 5 (JStr ''   '') (JStr ''lunch'') (JStr ''2024-01-15'') (JStr ''1a2b3c4d'')
     (JStr ''2024-01-15T12:00:00'') =
   Inr \<lparr>amount = 5, category = [], description = ''lunch'', date = JStr ''2024-01-15'',
        expense_id = JStr ''1a2b3c4d'', created_at = JStr ''2024-01-15T12:00:00''\<rparr>"
  by (simp add: post_init_def string_eval)

text \<open>
  C3. \<^verbatim>\<open>list_expenses\<close> is claimed to apply each filter whenever it is given. The
  code tests the filters for truth, so an empty string is no filter: asked for the
  category \<^verbatim>\<open>""\<close>, or for the end date \<^verbatim>\<open>""\<close>, it returns every record, where the
  claim selects none. What holds, for a collection whose dates are strings: the
  result is the records whose category is the lowercased and trimmed requested one
  and whose date lies between the bounds, both included, in the order of strings,
  each filter applied when it is given and not empty; sorted by date, most recent
  first; cut to the first \<open>limit\<close> records when the limit is positive, and whole
  when it is absent, zero or negative.
\<close>

theorem list_expenses_refines_spec:
  assumes "load_expenses rt f = Inr es"
    and "list_all (\<lambda>e. is_str (date e)) es"
  shows "list_expenses rt f cat sd ed n =
           Inr (list_expenses_spec es (given cat) (given sd) (given ed) n) \<and>
         sorted_wrt (\<lambda>x y. date_key y \<le> date_key x)
           (list_expenses_spec es (given cat) (given sd) (given ed) n) \<and>
         set (list_expenses_spec es (given cat) (given sd) (given ed) None) =
           {e \<in> set es. selected (given cat) (given sd) (given ed) e}"
proof -
  let ?sel = "selected (given cat) (given sd) (given ed)"
  define c1 where "c1 = by_category cat es"
  define c2 where "c2 =
    filter (\<lambda>e. case given sd of None \<Rightarrow> True | Some s \<Rightarrow> s \<le> date_key e) c1"
  define c3 where "c3 =
    filter (\<lambda>e. case given ed of None \<Rightarrow> True | Some s \<Rightarrow> date_key e \<le> s) c2"
  have a1: "list_all (\<lambda>e. is_str (date e)) c1"
    using assms(2) by (simp add: c1_def by_category_given list_all_filter_keep)
  have s1: "from_start sd c1 = Inr c2"
    using a1 by (simp add: from_start_given c2_def)
  have a2: "list_all (\<lambda>e. is_str (date e)) c2"
    using a1 by (simp add: c2_def list_all_filter_keep)
  have s2: "to_end ed c2 = Inr c3"
    using a2 by (simp add: to_end_given c3_def)
  have a3: "list_all (\<lambda>e. is_str (date e)) c3"
    using a2 by (simp add: c3_def list_all_filter_keep)
  have s3: "sort_by_date_desc c3 = Inr (rev (sort_key date_key (rev c3)))"
    using a3 by (rule sort_by_date_desc_strings)
  have sel: "c3 = filter ?sel es"
    by (simp add: c3_def c2_def c1_def by_category_given selected_def conj_commute
        conj_left_commute cong: filter_cong)
  have "list_expenses rt f cat sd ed n = Inr (apply_limit n (rev (sort_key date_key (rev c3))))"
    using s1 s2 s3 by (simp add: list_expenses_def assms(1) c1_def [symmetric])
  then have eq: "list_expenses rt f cat sd ed n =
           Inr (list_expenses_spec es (given cat) (given sd) (given ed) n)"
    by (simp add: sel list_expenses_spec_def apply_limit_eq Let_def)
  have srt: "sorted_wrt (\<lambda>x y. date_key y \<le> date_key x)
           (list_expenses_spec es (given cat) (given sd) (given ed) n)"
    by (auto simp: list_expenses_spec_def Let_def sorted_desc_rev_sort_key sorted_wrt_take
        split: option.splits)
  have st: "set (list_expenses_spec es (given cat) (given sd) (given ed) None) =
           {e \<in> set es. selected (given cat) (given sd) (given ed) e}"
    by (simp add: list_expenses_spec_def)
  show ?thesis using eq srt st by blast
qed

theorem list_expenses_empty_filter_counterexample:
  "load_expenses example_runtimes (Parsed (JArr [item_lunch])) = Inr [expense_lunch] \<and>
   list_expenses example_runtimes (Parsed (JArr [item_lunch])) (Some []) None None None =
     Inr [expense_lunch] \<and>
   list_expenses_spec [expense_lunch] (Some []) None None None = [] \<and>
   list_expenses example_runtimes (Parsed (JArr [item_lunch])) None None (Some []) None =
     Inr [expense_lunch] \<and>
   list_expenses_spec [expense_lunch] None None (Some []) None = []"
proof -
  have l: "load_expenses example_runtimes (Parsed (JArr [item_lunch])) = Inr [expense_lunch]"
    by (simp add: load_eval)
  have srt: "sort_by_date_desc [expense_lunch] = Inr [expense_lunch]"
    by (simp add: sort_by_date_desc_def is_str_def expense_lunch_def)
  have c1: "list_expenses example_runtimes (Parsed (JArr [item_lunch])) (Some []) None None None =
     Inr [expense_lunch]"
    by (simp add: list_expenses_def l by_category_def from_start_def to_end_def srt apply_limit_def)
  have c2: "list_expenses example_runtimes (Parsed (JArr [item_lunch])) None None (Some []) None =
     Inr [expense_lunch]"
    by (simp add: list_expenses_def l by_category_def from_start_def to_end_def srt apply_limit_def)
  have s1: "list_expenses_spec [expense_lunch] (Some []) None None None = []"
    by (simp add: list_expenses_spec_def selected_def expense_lunch_def string_eval)
  have s2: "list_expenses_spec [expense_lunch] None None (Some []) None = []"
    by (simp add: list_expenses_spec_def selected_def expense_lunch_def date_key_def)
  show ?thesis using l c1 c2 s1 s2 by blast
qed

theorem list_expenses_refines_spec_witness:
  "list_expenses example_runtimes (Parsed (JArr [item_coffee, item_lunch, item_taxi]))
     None (Some ''2024-01-01'') (Some ''2024-01-31'') None = Inr [expense_lunch] \<and>
   list_expenses example_runtimes (Parsed (JArr [item_coffee, item_lunch, item_taxi]))
     (Some '' Food '') None None (Some 5) = Inr [expense_lunch, expense_coffee] \<and>
   list_expenses example_runtimes (Parsed (JArr [item_coffee, item_lunch, item_taxi]))
     None None None (Some 2) = Inr [expense_taxi, expense_lunch] \<and>
   list_expenses example_runtimes (Parsed (JArr [item_coffee, item_lunch, item_taxi]))
     None None None (Some 0) = Inr [expense_taxi, expense_lunch, expense_coffee]"
proof -
  let ?f = "Parsed (JArr [item_coffee, item_lunch, item_taxi])"
  let ?es = "[expense_coffee, expense_lunch, expense_taxi]"
  have l: "load_expenses example_runtimes ?f = Inr ?es"
    by (simp add: load_eval)
  have d: "list_all (\<lambda>e. is_str (date e)) ?es"
    by (simp add: is_str_def expense_lunch_def expense_taxi_def expense_coffee_def)
  have k: "date_key expense_coffee = ''2023-12-31''" "date_key expense_lunch = ''2024-01-15''"
    "date_key expense_taxi = ''2024-02-01''"
    "category expense_coffee = ''food''" "category expense_lunch = ''food''"
    "category expense_taxi = ''transport''"
    by (simp_all add: date_key_def expense_lunch_def expense_taxi_def expense_coffee_def)
  have n: "strip (lower '' Food '') = ''food''"
    by (simp add: string_eval)
  have e1: "list_expenses_spec ?es (given None) (given (Some ''2024-01-01''))
              (given (Some ''2024-01-31'')) None = [expense_lunch]"
    by (simp add: list_expenses_spec_def selected_def given_def k)
  have e2: "list_expenses_spec ?es (given (Some '' Food '')) (given None) (given None) (Some 5) =
              [expense_lunch, expense_coffee]"
    by (simp add: list_expenses_spec_def selected_def given_def k n)
  have e3: "list_expenses_spec ?es (given None) (given None) (given None) (Some 2) =
              [expense_taxi, expense_lunch]"
    by (simp add: list_expenses_spec_def selected_def given_def k)
  have e4: "list_expenses_spec ?es (given None) (given None) (given None) (Some 0) =
              [expense_taxi, expense_lunch, expense_coffee]"
    by (simp add: list_expenses_spec_def selected_def given_def k)
  show ?thesis
    using list_expenses_refines_spec [OF l d, of None "Some ''2024-01-01''" "Some ''2024-01-31''" None]
      list_expenses_refines_spec [OF l d, of "Some '' Food ''" None None "Some 5"]
      list_expenses_refines_spec [OF l d, of None None None "Some 2"]
      list_expenses_refines_spec [OF l d, of None None None "Some 0"]
    by (simp only: e1 e2 e3 e4)
qed

section \<open>The summary: what does not depend on the arithmetic\<close>

text \<open>
  C4 speaks of the total and the arithmetic mean of a group, rounded to two decimal
  places. \<^verbatim>\<open>get_summary\<close> leaves all three to pandas, which computes them on
  doubles: the sum and the mean by a summation of its own, each step rounded to a
  double, and \<^verbatim>\<open>round(2)\<close> from the double product of the value by one hundred,
  not from the value. These are not the sum, the quotient and the nearest hundredth
  of the real numbers the amounts stand for, and the model has no doubles to say
  what they are; they stay parameters. The summary is characterized for whatever
  the three operations compute: when no month is given, or when the loaded dates are
  strings, \<^verbatim>\<open>get_summary\<close> returns one row per category of the records whose date
  starts with the month, with the number of records of the category and with what
  the operations give on the amounts of the category, in descending order of the
  totals before rounding; there is no row exactly when no record matches.
\<close>

lemma get_summary_structure:
  assumes "load_expenses rt f = Inr es"
    and "month_prefix month = [] \<or> list_all (\<lambda>e. is_str (date e)) es"
  shows "\<exists>rows. get_summary ar rt f month = Inr rows \<and>
           distinct (map s_category rows) \<and>
           set (map s_category rows) = category ` set (matching month es) \<and>
           list_all (\<lambda>r.
               s_total r = round2 ar (agg_sum ar (group_amounts (matching month es) (s_category r))) \<and>
               s_count r = length (filter (\<lambda>e. category e = s_category r) (matching month es)) \<and>
               s_average r =
                 round2 ar (agg_mean ar (group_amounts (matching month es) (s_category r)))) rows \<and>
           sorted_wrt (\<lambda>r r'. group_total ar (matching month es) r'
                                \<le> group_total ar (matching month es) r) rows \<and>
           (rows = [] \<longleftrightarrow> matching month es = []) \<and>
           (mono (round2 ar) \<longrightarrow> sorted_wrt (\<lambda>r r'. s_total r' \<le> s_total r) rows)"
proof -
  define sel where "sel = matching month es"
  define agg where "agg = sort_total_desc (aggregate ar sel)"
  define rows where "rows = round_columns ar agg"
  have g: "get_summary ar rt f month = Inr rows"
    using assms by (simp add: get_summary_rows rows_def agg_def sel_def)
  have cats: "map s_category rows = map s_category agg"
    by (simp add: rows_def categories_round)
  have agg_set: "set agg = set (aggregate ar sel)"
    by (simp add: agg_def set_sort_total_desc)
  have d: "distinct (map s_category rows)"
    by (simp add: cats agg_def distinct_categories_sort categories_aggregate distinct_group_keys)
  have c: "set (map s_category rows) = category ` set sel"
    using set_group_keys [of sel] categories_aggregate [of ar sel]
    by (simp only: cats set_map agg_set) (metis set_map)
  have agg_rows: "\<And>r. r \<in> set agg \<Longrightarrow>
      s_total r = group_total ar sel r \<and>
      s_count r = length (filter (\<lambda>e. category e = s_category r) sel) \<and>
      s_average r = agg_mean ar (group_amounts sel (s_category r))"
    using aggregate_rows by (simp add: agg_set)
  have content: "list_all (\<lambda>r.
               s_total r = round2 ar (agg_sum ar (group_amounts sel (s_category r))) \<and>
               s_count r = length (filter (\<lambda>e. category e = s_category r) sel) \<and>
               s_average r = round2 ar (agg_mean ar (group_amounts sel (s_category r)))) rows"
    using agg_rows by (auto simp: rows_def round_columns_def list_all_iff group_total_def)
  have s_agg: "sorted_wrt (\<lambda>r r'. s_total r' \<le> s_total r) agg"
    by (simp add: agg_def sorted_sort_total_desc)
  have s_grp: "sorted_wrt (\<lambda>r r'. group_total ar sel r' \<le> group_total ar sel r) agg"
    using s_agg agg_rows by (auto elim!: sorted_wrt_cong_set [rotated])
  have srt: "sorted_wrt (\<lambda>r r'. group_total ar sel r' \<le> group_total ar sel r) rows"
    using s_grp by (simp add: rows_def round_columns_def sorted_wrt_map group_total_def)
  have e: "rows = [] \<longleftrightarrow> sel = []"
  proof -
    have "rows = [] \<longleftrightarrow> map s_category rows = []" by simp
    also have "\<dots> \<longleftrightarrow> set (map s_category rows) = {}" by (simp only: set_empty)
    also have "\<dots> \<longleftrightarrow> sel = []" by (simp only: c) simp
    finally show ?thesis .
  qed
  have m: "mono (round2 ar) \<longrightarrow> sorted_wrt (\<lambda>r r'. s_total r' \<le> s_total r) rows"
  proof
    assume "mono (round2 ar)"
    then have "\<And>x y. x \<le> y \<Longrightarrow> round2 ar x \<le> round2 ar y" by (simp add: mono_def)
    then show "sorted_wrt (\<lambda>r r'. s_total r' \<le> s_total r) rows"
      using s_agg
      by (auto simp: rows_def round_columns_def sorted_wrt_map elim!: sorted_wrt_cong_set [rotated])
  qed
  show ?thesis
    using g d c content srt e m unfolding sel_def by blast
qed

end
